theory Spec2Isabelle
  imports Main "HOL-Library.Word" "HOL-Library.Sublist"
begin

section \<open>JavaScript strings\<close>

text \<open>
  A JavaScript string is a sequence of UTF-16 code units; \<open>length\<close> counts code
  units, which is also what the \<open>maxLength\<close> attribute of an input element counts.
  \<open>js\<close> embeds an ASCII literal of the source.
\<close>

type_synonym jsstring = "16 word list"

definition js :: "string \<Rightarrow> jsstring" where
  "js s = map (\<lambda>c. of_nat (of_char c)) s"

text \<open>\<open>String.prototype.includes\<close>: the pattern occurs as a contiguous run.\<close>

definition js_includes :: "jsstring \<Rightarrow> jsstring \<Rightarrow> bool" where
  "js_includes s p = sublist p s"

text \<open>A string is truthy when it is not empty; an absent field is falsy.\<close>

definition truthy :: "jsstring option \<Rightarrow> bool" where
  "truthy x = (case x of None \<Rightarrow> False | Some s \<Rightarrow> s \<noteq> [])"

text \<open>\<open>x || d\<close> on an optional string.\<close>

definition or_else :: "jsstring option \<Rightarrow> jsstring \<Rightarrow> jsstring" where
  "or_else x d = (case x of None \<Rightarrow> d | Some s \<Rightarrow> if s \<noteq> [] then s else d)"

text \<open>
  \<open>String.prototype.trim\<close> removes the ECMAScript WhiteSpace and LineTerminator code
  units from both ends.
\<close>

definition is_space :: "16 word \<Rightarrow> bool" where
  "is_space c =
     (c = 0x09 \<or> c = 0x0A \<or> c = 0x0B \<or> c = 0x0C \<or> c = 0x0D \<or> c = 0x20 \<or> c = 0xA0
      \<or> c = 0x1680 \<or> (0x2000 \<le> c \<and> c \<le> 0x200A) \<or> c = 0x2028 \<or> c = 0x2029
      \<or> c = 0x202F \<or> c = 0x205F \<or> c = 0x3000 \<or> c = 0xFEFF)"

definition trim :: "jsstring \<Rightarrow> jsstring" where
  "trim s = rev (dropWhile is_space (rev (dropWhile is_space s)))"

text \<open>The decimal rendering of a number inside a template literal.\<close>

function decimal :: "nat \<Rightarrow> jsstring" where
  "decimal n =
     (if n < 10 then [of_nat (48 + n)]
      else decimal (n div 10) @ [of_nat (48 + n mod 10)])"
  by pat_completeness auto
termination
  by (relation "measure id") auto

section \<open>Errors and promises\<close>

text \<open>
  A thrown value is an \<open>Error\<close> object (name and message) or something that is not
  an instance of \<open>Error\<close>. \<open>new_Error m\<close> is \<open>new Error(m)\<close>.
\<close>

datatype js_error = Error (err_name: jsstring) (err_message: jsstring)

datatype thrown = IsError js_error | NotError

definition new_Error :: "jsstring \<Rightarrow> js_error" where
  "new_Error m = Error (js ''Error'') m"

text \<open>\<open>error instanceof Error ? error : new Error('Unknown error')\<close>\<close>

definition as_Error :: "thrown \<Rightarrow> js_error" where
  "as_Error error = (case error of IsError e \<Rightarrow> e | NotError \<Rightarrow> new_Error (js ''Unknown error''))"

text \<open>
  How an awaited promise ends: it resolves, it rejects, or it never settles.
\<close>

datatype 'a settled = Returns 'a | Throws thrown | Pending

section \<open>API types\<close>

record QueryRequest =
  query :: jsstring
  user_id :: "jsstring option"

record QueryResponse =
  status :: jsstring
  response :: "jsstring option"
  resp_query :: "jsstring option"
  source :: "jsstring option"
  message :: "jsstring option"
  detected_language :: "jsstring option"
  was_translated :: "bool option"
  english_query :: "jsstring option"

record Message =
  msg_id :: jsstring
  content :: jsstring
  isUser :: bool
  timestamp :: nat

section \<open>The network\<close>

text \<open>
  The decoded JSON body of a response: the \<open>detail\<close> field read on the error path and
  the fields of \<open>QueryResponse\<close> returned on the success path.
\<close>

record json_body =
  detail :: "jsstring option"
  payload :: QueryResponse

text \<open>
  \<open>response.json()\<close> resolves with the decoded body after some milliseconds, rejects
  (the body is not JSON, the stream breaks), or never settles (the body never ends).
\<close>

datatype json_read = JsonValue nat json_body | JsonThrows nat thrown | JsonPending

record Response =
  http_status :: nat
  json :: json_read

text \<open>\<open>Response.ok\<close> of the Fetch standard: the status is in the range 200 to 299.\<close>

definition ok :: "Response \<Rightarrow> bool" where
  "ok r = (200 \<le> http_status r \<and> http_status r \<le> 299)"

text \<open>
  What the platform's \<open>fetch\<close> would do if left alone: resolve with a response after
  some milliseconds (the headers have arrived), reject after some milliseconds, or never
  settle. The transport gives this for each request and each call, numbered from 1.
\<close>

datatype fetch_behaviour = FetchResolves nat Response | FetchRejects nat thrown | FetchPending

type_synonym transport = "QueryRequest \<Rightarrow> nat \<Rightarrow> fetch_behaviour"

section \<open>ApiClient\<close>

text \<open>
  The \<open>AbortError\<close> with which \<open>fetch\<close> rejects when its signal is aborted.
\<close>

definition AbortError :: thrown where
  "AbortError = IsError (Error (js ''AbortError'') (js ''signal is aborted without reason''))"

text \<open>The catch block of \<open>fetchWithTimeout\<close>: what it throws for a caught value.\<close>

definition fetch_catch :: "thrown \<Rightarrow> thrown" where
  "fetch_catch error =
     (case error of
        IsError e \<Rightarrow>
          if err_name e = js ''AbortError''
          then IsError (new_Error (js ''Request timed out. Please refresh the page and try again.''))
          else if js_includes (err_message e) (js ''fetch'')
          then IsError (new_Error (js ''Connection failed. Please check your internet and refresh the page.''))
          else error
      | NotError \<Rightarrow> error)"

text \<open>
  \<open>fetchWithTimeout\<close>: the timer aborts the call when \<open>timeout\<close> milliseconds pass
  before \<open>fetch\<close> settles; once \<open>fetch\<close> has settled the timer is cleared. The result
  is what the call throws or returns, and the milliseconds it took.
\<close>

definition fetchWithTimeout :: "fetch_behaviour \<Rightarrow> nat \<Rightarrow> (thrown + Response) \<times> nat" where
  "fetchWithTimeout net timeout =
     (case net of
        FetchResolves d resp \<Rightarrow>
          if d < timeout then (Inr resp, d) else (Inl (fetch_catch AbortError), timeout)
      | FetchRejects d error \<Rightarrow>
          if d < timeout then (Inl (fetch_catch error), d) else (Inl (fetch_catch AbortError), timeout)
      | FetchPending \<Rightarrow> (Inl (fetch_catch AbortError), timeout))"

definition maxRetries :: nat where
  "maxRetries = 2"

definition timeoutMs :: "nat \<Rightarrow> nat" where
  "timeoutMs attempt = (if attempt = 1 then 30000 else 60000)"

definition http_error :: "nat \<Rightarrow> jsstring" where
  "http_error st = js ''HTTP error! status: '' @ decimal st"

text \<open>
  The try block of one iteration of the loop in \<open>query\<close>: the value it returns or
  throws (or that it never finishes), and the milliseconds it took.
\<close>

definition query_try :: "transport \<Rightarrow> QueryRequest \<Rightarrow> nat \<Rightarrow> QueryResponse settled \<times> nat" where
  "query_try fetch request attempt =
     (case fetchWithTimeout (fetch request attempt) (timeoutMs attempt) of
        (Inl error, t) \<Rightarrow> (Throws error, t)
      | (Inr resp, t) \<Rightarrow>
          if \<not> ok resp then
            (case json resp of
               JsonValue d errorData \<Rightarrow>
                 (Throws (IsError (new_Error
                    (or_else (detail errorData) (http_error (http_status resp))))), t + d)
             | JsonThrows d _ \<Rightarrow>
                 (Throws (IsError (new_Error (http_error (http_status resp)))), t + d)
             | JsonPending \<Rightarrow> (Pending, t))
          else
            (case json resp of
               JsonValue d body \<Rightarrow> (Returns (payload body), t + d)
             | JsonThrows d error \<Rightarrow> (Throws error, t + d)
             | JsonPending \<Rightarrow> (Pending, t)))"

text \<open>The two user-friendly messages of \<open>query\<close>.\<close>

definition server_slow_message :: jsstring where
  "server_slow_message = js ''The server is taking longer than expected to respond. Please refresh the page and try again. This often happens when the server is starting up.''"

definition cannot_connect_message :: jsstring where
  "cannot_connect_message = js ''Unable to connect to the server. Please check your internet connection and refresh the page.''"

text \<open>The statements after the loop: the error that \<open>query\<close> throws.\<close>

definition query_throw :: "js_error \<Rightarrow> js_error" where
  "query_throw lastError =
     (if js_includes (err_message lastError) (js ''timed out'')
         \<or> js_includes (err_message lastError) (js ''AbortError'')
      then new_Error server_slow_message
      else if js_includes (err_message lastError) (js ''Connection failed'')
         \<or> js_includes (err_message lastError) (js ''fetch'')
      then new_Error cannot_connect_message
      else new_Error (js ''Failed to send query: '' @ err_message lastError))"

text \<open>
  What a call of \<open>query\<close> did: how it ended, the calls of \<open>fetchWithTimeout\<close> and the
  waits between them in order, and the milliseconds that passed until it ended (for a
  call that never ends, until it got stuck).
\<close>

datatype event = Attempt nat | Wait nat

record query_run =
  outcome :: "QueryResponse settled"
  events :: "event list"
  elapsed :: nat

text \<open>The loop of \<open>query\<close>, from the iteration \<open>attempt\<close> on.\<close>

function query_loop ::
  "transport \<Rightarrow> QueryRequest \<Rightarrow> nat \<Rightarrow> js_error \<Rightarrow> event list \<Rightarrow> nat \<Rightarrow> query_run" where
  "query_loop fetch request attempt lastError evs t =
     (if attempt \<le> maxRetries then
        (case query_try fetch request attempt of
           (Returns r, d) \<Rightarrow>
             \<lparr>outcome = Returns r, events = evs @ [Attempt (timeoutMs attempt)], elapsed = t + d\<rparr>
         | (Pending, d) \<Rightarrow>
             \<lparr>outcome = Pending, events = evs @ [Attempt (timeoutMs attempt)], elapsed = t + d\<rparr>
         | (Throws error, d) \<Rightarrow>
             (let lastError' = as_Error error
              in if attempt = maxRetries
                 then \<lparr>outcome = Throws (IsError (query_throw lastError')),
                       events = evs @ [Attempt (timeoutMs attempt)], elapsed = t + d\<rparr>
                 else query_loop fetch request (attempt + 1) lastError'
                        (evs @ [Attempt (timeoutMs attempt), Wait 2000]) (t + d + 2000)))
      else \<lparr>outcome = Throws (IsError (query_throw lastError)), events = evs, elapsed = t\<rparr>)"
  by pat_completeness auto
termination
  by (relation "measure (\<lambda>(fetch, request, attempt, lastError, evs, t). maxRetries + 1 - attempt)")
     auto

definition ApiClient_query :: "transport \<Rightarrow> QueryRequest \<Rightarrow> query_run" where
  "ApiClient_query fetch request =
     query_loop fetch request 1 (new_Error (js ''Unknown error'')) [] 0"

section \<open>Chat\<close>

text \<open>The state of the \<open>Chat\<close> component, with the initial values of its hooks.\<close>

record ChatState =
  messages :: "Message list"
  loading :: bool
  error :: "jsstring option"
  showExamples :: bool
  lastDetectedLanguage :: "jsstring option"

definition initial_state :: ChatState where
  "initial_state =
     \<lparr>messages = [], loading = False, error = None, showExamples = True,
      lastDetectedLanguage = None\<rparr>"

text \<open>What \<open>generateId()\<close> and \<open>new Date()\<close> give when a message is built.\<close>

record stamp =
  new_id :: jsstring
  now :: nat

text \<open>
  A value inside a template literal: an absent field renders as \<open>undefined\<close>.
\<close>

definition render :: "jsstring option \<Rightarrow> jsstring" where
  "render x = (case x of None \<Rightarrow> js ''undefined'' | Some s \<Rightarrow> s)"

text \<open>
  \<open>handleSendMessage\<close> up to its \<open>await\<close>: the state after the four updates, and the
  request with which \<open>apiClient.query\<close> is called.
\<close>

definition handleSendMessage_start ::
  "stamp \<Rightarrow> jsstring \<Rightarrow> ChatState \<Rightarrow> ChatState \<times> QueryRequest" where
  "handleSendMessage_start st messageText s =
     (let userMessage =
            \<lparr>msg_id = new_id st, content = messageText, isUser = True, timestamp = now st\<rparr>
      in (s\<lparr>messages := messages s @ [userMessage], showExamples := False,
             loading := True, error := None\<rparr>,
          \<lparr>query = messageText, user_id = Some (js ''web_user'')\<rparr>))"

text \<open>The annotated text of a translated answer (the globe is U+1F30D).\<close>

definition detected_annotation :: "jsstring \<Rightarrow> jsstring" where
  "detected_annotation lang =
     [0xD83C, 0xDF0D] @ js '' *Detected Language: '' @ lang @ js ''*'' @ [0x0A, 0x0A]"

text \<open>
  The rest of the try block, once the awaited call has settled: it throws, or gives the
  state after the updates of the success branch.
\<close>

definition handleSendMessage_try ::
  "stamp \<Rightarrow> thrown + QueryResponse \<Rightarrow> ChatState \<Rightarrow> thrown + ChatState" where
  "handleSendMessage_try st settled_call s =
     (case settled_call of
        Inl err \<Rightarrow> Inl err
      | Inr r \<Rightarrow>
          if status r = js ''success'' \<and> truthy (response r) then
            (let s1 = (if truthy (detected_language r)
                       then s\<lparr>lastDetectedLanguage := detected_language r\<rparr> else s);
                 responseContent =
                   (if was_translated r = Some True \<and> truthy (detected_language r)
                       \<and> detected_language r \<noteq> Some (js ''English'')
                    then detected_annotation (render (detected_language r)) @ render (response r)
                    else render (response r));
                 botMessage =
                   \<lparr>msg_id = new_id st, content = responseContent, isUser = False,
                    timestamp = now st\<rparr>
             in Inr (s1\<lparr>messages := messages s1 @ [botMessage]\<rparr>))
          else Inl (IsError (new_Error (or_else (message r) (js ''Failed to get response'')))))"

text \<open>The catch block (the arrows are U+1F504, the cross is U+274C).\<close>

definition isConnectionError :: "jsstring \<Rightarrow> bool" where
  "isConnectionError errorMessage =
     (js_includes errorMessage (js ''timed out'')
      \<or> js_includes errorMessage (js ''Connection failed'')
      \<or> js_includes errorMessage (js ''server is starting up''))"

definition friendlyMessage :: "jsstring \<Rightarrow> jsstring" where
  "friendlyMessage errorMessage =
     (if isConnectionError errorMessage
      then [0xD83D, 0xDD04]
           @ js '' **Connection Issue**: The server might be starting up or there''
           @ [0x27] @ js ''s a network issue.'' @ [0x0A, 0x0A]
           @ js ''**Quick Fix**: Please refresh this page and try again. This usually resolves the issue!''
           @ [0x0A, 0x0A] @ js ''*Technical details: '' @ errorMessage @ js ''*''
      else [0x274C] @ js '' Sorry, I encountered an error: '' @ errorMessage)"

definition handleSendMessage_catch :: "stamp \<Rightarrow> thrown \<Rightarrow> ChatState \<Rightarrow> ChatState" where
  "handleSendMessage_catch st err s =
     (let errorMessage =
            (case err of IsError e \<Rightarrow> err_message e
             | NotError \<Rightarrow> js ''Unknown error occurred'');
          errorBotMessage =
            \<lparr>msg_id = new_id st, content = friendlyMessage errorMessage, isUser = False,
             timestamp = now st\<rparr>
      in s\<lparr>error := Some errorMessage, messages := messages s @ [errorBotMessage]\<rparr>)"

text \<open>
  \<open>handleSendMessage\<close> from the moment the awaited call settles: try, catch, and the
  finally block.
\<close>

definition handleSendMessage_finish ::
  "stamp \<Rightarrow> thrown + QueryResponse \<Rightarrow> ChatState \<Rightarrow> ChatState" where
  "handleSendMessage_finish st settled_call s =
     (case handleSendMessage_try st settled_call s of
        Inr s' \<Rightarrow> s'
      | Inl err \<Rightarrow> handleSendMessage_catch st err s)\<lparr>loading := False\<rparr>"

text \<open>
  A whole call of \<open>handleSendMessage\<close> with nothing else happening in between; \<open>None\<close>
  when \<open>apiClient.query\<close> never settles, so that the call never gets past its \<open>await\<close>.
\<close>

definition handleSendMessage ::
  "transport \<Rightarrow> stamp \<Rightarrow> stamp \<Rightarrow> jsstring \<Rightarrow> ChatState \<Rightarrow> ChatState option" where
  "handleSendMessage fetch st st' messageText s =
     (case handleSendMessage_start st messageText s of
        (s1, request) \<Rightarrow>
          (case outcome (ApiClient_query fetch request) of
             Returns r \<Rightarrow> Some (handleSendMessage_finish st' (Inr r) s1)
           | Throws err \<Rightarrow> Some (handleSendMessage_finish st' (Inl err) s1)
           | Pending \<Rightarrow> None))"

definition handleSelectQuery_start ::
  "stamp \<Rightarrow> jsstring \<Rightarrow> ChatState \<Rightarrow> ChatState \<times> QueryRequest" where
  "handleSelectQuery_start st q s = handleSendMessage_start st q s"

text \<open>
  The component as a transition system: a call of \<open>handleSendMessage\<close> starts, a
  started call finishes with what its awaited call settled to, or the user dismisses the
  error banner (\<open>setError(null)\<close>).
\<close>

datatype action = Start stamp jsstring | Finish stamp "thrown + QueryResponse" | Dismiss

fun Chat_step :: "ChatState \<Rightarrow> action \<Rightarrow> ChatState" where
  "Chat_step s (Start st messageText) = fst (handleSendMessage_start st messageText s)"
| "Chat_step s (Finish st settled_call) = handleSendMessage_finish st settled_call s"
| "Chat_step s Dismiss = s\<lparr>error := None\<rparr>"

definition Chat_run :: "ChatState \<Rightarrow> action list \<Rightarrow> ChatState" where
  "Chat_run s acts = foldl Chat_step s acts"

text \<open>
  What the view shows: the loading indicator while \<open>loading\<close> holds, otherwise the error
  banner when \<open>error\<close> is truthy.
\<close>

datatype ui_status = Idle | Sending | Failed jsstring

definition status_of :: "ChatState \<Rightarrow> ui_status" where
  "status_of s =
     (if loading s then Sending
      else (case error s of None \<Rightarrow> Idle | Some m \<Rightarrow> if m \<noteq> [] then Failed m else Idle))"

section \<open>ChatInput\<close>

text \<open>
  \<open>handleSend\<close> with the \<open>loading\<close> prop and the \<open>message\<close> state: the new value of
  \<open>message\<close>, and the text passed to \<open>onSendMessage\<close> when it is called.
\<close>

definition handleSend :: "bool \<Rightarrow> jsstring \<Rightarrow> jsstring \<times> jsstring option" where
  "handleSend ld msg =
     (let trimmedMessage = trim msg
      in if trimmedMessage \<noteq> [] \<and> \<not> ld then ([], Some trimmedMessage) else (msg, None))"

definition handleKeyPress :: "bool \<Rightarrow> jsstring \<Rightarrow> jsstring \<Rightarrow> jsstring \<times> jsstring option" where
  "handleKeyPress ld key msg = (if key = js ''Enter'' then handleSend ld msg else (msg, None))"

text \<open>
  The events of the input element and the button. The element has \<open>maxLength={500}\<close>:
  the browser delivers no edited value longer than that.
\<close>

datatype input_event = Change jsstring | KeyPress jsstring | Click



definition ChatInput_event :: "bool \<Rightarrow> input_event \<Rightarrow> jsstring \<Rightarrow> jsstring \<times> jsstring option" where
  "ChatInput_event ld ev msg =
     (case ev of
        Change v \<Rightarrow> (v, None)
      | KeyPress key \<Rightarrow> handleKeyPress ld key msg
      | Click \<Rightarrow> handleSend ld msg)"


section \<open>The whole component\<close>

text \<open>
  \<open>handleSendMessage\<close> has two call sites. \<open>Chat\<close> renders \<open>ChatInput\<close> with
  \<open>onSendMessage={handleSendMessage}\<close> and \<open>loading={loading}\<close>, so an event of the
  input reaches it through \<open>handleSend\<close>. And it renders \<open>ExampleQueries\<close> with
  \<open>onSelectQuery={handleSelectQuery}\<close>, inside the welcome screen, which is shown when
  \<open>messages.length === 0 && !loading\<close>, and there only when \<open>showExamples\<close> holds.
\<close>

definition examples_rendered :: "ChatState \<Rightarrow> bool" where
  "examples_rendered s = (messages s = [] \<and> \<not> loading s \<and> showExamples s)"

text \<open>
  The state of the component with its input, the requests with which \<open>apiClient.query\<close>
  has been called, in order, and the number of those calls that have not settled yet.
\<close>

record App =
  chat :: ChatState
  input :: jsstring
  issued :: "QueryRequest list"
  in_flight :: nat

text \<open>
  What can happen: an event of the input, the selection of an example query (where the
  examples are rendered), the settling of a call in flight, which finishes its
  \<open>handleSendMessage\<close>, and the dismissal of the error banner.
\<close>

datatype app_event =
  Input stamp input_event
| SelectExample stamp jsstring
| Settled stamp "thrown + QueryResponse"
| DismissError

fun App_step :: "App \<Rightarrow> app_event \<Rightarrow> App" where
  "App_step a (Input st ev) =
     (case ChatInput_event (loading (chat a)) ev (input a) of
        (msg', None) \<Rightarrow> a\<lparr>input := msg'\<rparr>
      | (msg', Some t) \<Rightarrow>
          (case handleSendMessage_start st t (chat a) of
             (s', request) \<Rightarrow>
               a\<lparr>chat := s', input := msg', issued := issued a @ [request],
                 in_flight := in_flight a + 1\<rparr>))"
| "App_step a (SelectExample st q) =
     (if examples_rendered (chat a) then
        (case handleSelectQuery_start st q (chat a) of
           (s', request) \<Rightarrow>
             a\<lparr>chat := s', issued := issued a @ [request], in_flight := in_flight a + 1\<rparr>)
      else a)"
| "App_step a (Settled st settled_call) =
     (if in_flight a = 0 then a
      else a\<lparr>chat := handleSendMessage_finish st settled_call (chat a),
             in_flight := in_flight a - 1\<rparr>)"
| "App_step a DismissError = a\<lparr>chat := (chat a)\<lparr>error := None\<rparr>\<rparr>"

definition App_initial :: App where
  "App_initial = \<lparr>chat = initial_state, input = [], issued = [], in_flight = 0\<rparr>"

definition App_run :: "App \<Rightarrow> app_event list \<Rightarrow> App" where
  "App_run a evs = foldl App_step a evs"

section \<open>Notions used in the statements\<close>

text \<open>The try block of an iteration of \<open>query\<close> throws.\<close>

definition attempt_fails :: "transport \<Rightarrow> QueryRequest \<Rightarrow> nat \<Rightarrow> bool" where
  "attempt_fails fetch request attempt =
     (case fst (query_try fetch request attempt) of Throws _ \<Rightarrow> True | _ \<Rightarrow> False)"

text \<open>The timeouts of the calls of \<open>fetchWithTimeout\<close> that a call of \<open>query\<close> made.\<close>

definition attempts :: "query_run \<Rightarrow> nat list" where
  "attempts run = concat (map (\<lambda>ev. case ev of Attempt timeout \<Rightarrow> [timeout] | Wait _ \<Rightarrow> []) (events run))"

text \<open>
  The retryable conditions in the words of the specification: the deadline expired or
  the transport failed, that is, \<open>fetchWithTimeout\<close> itself threw and no response
  arrived.
\<close>

definition spec_retryable :: "transport \<Rightarrow> QueryRequest \<Rightarrow> nat \<Rightarrow> bool" where
  "spec_retryable fetch request attempt =
     (case fst (fetchWithTimeout (fetch request attempt) (timeoutMs attempt)) of
        Inl _ \<Rightarrow> True | Inr _ \<Rightarrow> False)"

text \<open>The timer of \<open>fetchWithTimeout\<close> fires before \<open>fetch\<close> settles.\<close>

definition deadline_expires :: "fetch_behaviour \<Rightarrow> nat \<Rightarrow> bool" where
  "deadline_expires net timeout =
     (case net of FetchResolves d _ \<Rightarrow> \<not> d < timeout | FetchRejects d _ \<Rightarrow> \<not> d < timeout
      | FetchPending \<Rightarrow> True)"


text \<open>
  The body read that an iteration of \<open>query\<close> makes, if its \<open>fetchWithTimeout\<close>
  returned a response, and the milliseconds that read takes.
\<close>

definition body_read :: "transport \<Rightarrow> QueryRequest \<Rightarrow> nat \<Rightarrow> json_read option" where
  "body_read fetch request attempt =
     (case fst (fetchWithTimeout (fetch request attempt) (timeoutMs attempt)) of
        Inl _ \<Rightarrow> None | Inr resp \<Rightarrow> Some (json resp))"

definition body_time :: "transport \<Rightarrow> QueryRequest \<Rightarrow> nat \<Rightarrow> nat" where
  "body_time fetch request attempt =
     (case body_read fetch request attempt of
        Some (JsonValue d _) \<Rightarrow> d | Some (JsonThrows d _) \<Rightarrow> d | _ \<Rightarrow> 0)"

text \<open>The milliseconds that the call of \<open>fetchWithTimeout\<close> of an iteration takes.\<close>

definition fetch_time :: "transport \<Rightarrow> QueryRequest \<Rightarrow> nat \<Rightarrow> nat" where
  "fetch_time fetch request attempt =
     snd (fetchWithTimeout (fetch request attempt) (timeoutMs attempt))"

text \<open>
  The request that \<open>handleSendMessage\<close> sends for a text, and the entries it appends.
\<close>

definition web_request :: "jsstring \<Rightarrow> QueryRequest" where
  "web_request messageText = \<lparr>query = messageText, user_id = Some (js ''web_user'')\<rparr>"

definition user_entry :: "stamp \<Rightarrow> jsstring \<Rightarrow> Message" where
  "user_entry st messageText =
     \<lparr>msg_id = new_id st, content = messageText, isUser = True, timestamp = now st\<rparr>"

definition assistant_entry :: "stamp \<Rightarrow> jsstring \<Rightarrow> Message" where
  "assistant_entry st txt =
     \<lparr>msg_id = new_id st, content = txt, isUser = False, timestamp = now st\<rparr>"

text \<open>The message that the catch block reports for what the awaited call settled to.\<close>

definition failure_of :: "QueryResponse settled \<Rightarrow> jsstring option" where
  "failure_of oc =
     (case oc of
        Throws (IsError e) \<Rightarrow> Some (err_message e)
      | Throws NotError \<Rightarrow> Some (js ''Unknown error occurred'')
      | Returns r \<Rightarrow>
          if status r = js ''success'' \<and> truthy (response r) then None
          else Some (or_else (message r) (js ''Failed to get response''))
      | Pending \<Rightarrow> None)"

section \<open>Example inputs\<close>

definition asthma_request :: QueryRequest where
  "asthma_request = \<lparr>query = js ''Tell me about asthma'', user_id = Some (js ''web_user'')\<rparr>"

definition error_body :: "jsstring \<Rightarrow> json_body" where
  "error_body d =
     \<lparr>detail = Some d,
      payload = \<lparr>status = js ''error'', response = None, resp_query = None, source = None,
                 message = None, detected_language = None, was_translated = None,
                 english_query = None\<rparr>\<rparr>"

definition answer :: "jsstring \<Rightarrow> jsstring option \<Rightarrow> bool option \<Rightarrow> QueryResponse" where
  "answer txt lang tr =
     \<lparr>status = js ''success'', response = Some txt, resp_query = None, source = None,
      message = None, detected_language = lang, was_translated = tr, english_query = None\<rparr>"

definition http_reply :: "nat \<Rightarrow> json_body \<Rightarrow> fetch_behaviour" where
  "http_reply st body = FetchResolves 120 \<lparr>http_status = st, json = JsonValue 5 body\<rparr>"

definition asthma_answer :: QueryResponse where
  "asthma_answer = answer (js ''Asthma is a chronic condition.'') (Some (js ''English'')) (Some False)"

definition fails_once_500 :: transport where
  "fails_once_500 request n =
     (if n = 1 then http_reply 500 (error_body (js ''Internal Server Error''))
      else http_reply 200 \<lparr>detail = None, payload = asthma_answer\<rparr>)"

definition always_503 :: transport where
  "always_503 request n = http_reply 503 (error_body (js ''Service Unavailable''))"

definition always :: "fetch_behaviour \<Rightarrow> transport" where
  "always net request n = net"

definition slow_body :: transport where
  "slow_body =
     always (FetchResolves 50
       \<lparr>http_status = 200, json = JsonValue 100000 \<lparr>detail = None, payload = asthma_answer\<rparr>\<rparr>)"

definition stalled_body :: transport where
  "stalled_body = always (FetchResolves 50 \<lparr>http_status = 200, json = JsonPending\<rparr>)"

definition stamp1 :: stamp where
  "stamp1 = \<lparr>new_id = js ''m1'', now = 1000\<rparr>"

definition stamp2 :: stamp where
  "stamp2 = \<lparr>new_id = js ''m2'', now = 2000\<rparr>"

definition busy_state :: ChatState where
  "busy_state = fst (handleSendMessage_start stamp1 (js ''Tell me about asthma'') initial_state)"

definition busy_app :: App where
  "busy_app =
     \<lparr>chat = busy_state, input = js ''Symptoms of anxiety'',
      issued = [asthma_request], in_flight = 1\<rparr>"

definition spanish_answer :: QueryResponse where
  "spanish_answer =
     answer (js ''Diabetes symptoms include thirst.'') (Some (js ''Spanish'')) (Some True)"

definition rejected_payload :: transport where
  "rejected_payload =
     always (http_reply 200
       \<lparr>detail = None,
        payload = \<lparr>status = js ''error'', response = None, resp_query = None, source = None,
                   message = Some (js ''No query given''), detected_language = None,
                   was_translated = None, english_query = None\<rparr>\<rparr>)"

definition spanish_session :: "action list" where
  "spanish_session =
     [Start stamp1 (js ''hola''), Finish stamp2 (Inr spanish_answer),
      Start stamp1 (js ''Tell me about asthma''), Finish stamp2 (Inl NotError), Dismiss,
      Start stamp1 (js ''Symptoms of anxiety''),
      Finish stamp2 (Inr (answer (js ''Anxiety shows as worry.'') None None))]"


section \<open>The retry loop\<close>

declare query_loop.simps [simp del]
declare decimal.simps [simp del]

lemma http_error_500: "http_error 500 = js ''HTTP error! status: 500''"
  by (simp add: http_error_def decimal.simps js_def)

lemma query_loop_last:
  "query_loop fetch request 2 lastError evs t =
     (case query_try fetch request 2 of
        (Returns r, d) \<Rightarrow> \<lparr>outcome = Returns r, events = evs @ [Attempt 60000], elapsed = t + d\<rparr>
      | (Pending, d) \<Rightarrow> \<lparr>outcome = Pending, events = evs @ [Attempt 60000], elapsed = t + d\<rparr>
      | (Throws e, d) \<Rightarrow>
          \<lparr>outcome = Throws (IsError (query_throw (as_Error e))),
           events = evs @ [Attempt 60000], elapsed = t + d\<rparr>)"
  by (subst query_loop.simps) (simp add: maxRetries_def timeoutMs_def split: prod.splits settled.splits)

lemma query_loop_first:
  "query_loop fetch request 1 lastError evs t =
     (case query_try fetch request 1 of
        (Returns r, d) \<Rightarrow> \<lparr>outcome = Returns r, events = evs @ [Attempt 30000], elapsed = t + d\<rparr>
      | (Pending, d) \<Rightarrow> \<lparr>outcome = Pending, events = evs @ [Attempt 30000], elapsed = t + d\<rparr>
      | (Throws e, d) \<Rightarrow>
          query_loop fetch request 2 (as_Error e) (evs @ [Attempt 30000, Wait 2000]) (t + d + 2000))"
  by (subst query_loop.simps)
     (simp add: maxRetries_def timeoutMs_def numeral_2_eq_2 split: prod.splits settled.splits)

lemma ApiClient_query_eq:
  "ApiClient_query fetch request =
     (case query_try fetch request 1 of
        (Returns r, d) \<Rightarrow> \<lparr>outcome = Returns r, events = [Attempt 30000], elapsed = d\<rparr>
      | (Pending, d) \<Rightarrow> \<lparr>outcome = Pending, events = [Attempt 30000], elapsed = d\<rparr>
      | (Throws e1, d) \<Rightarrow>
          (case query_try fetch request 2 of
             (Returns r, d') \<Rightarrow>
               \<lparr>outcome = Returns r, events = [Attempt 30000, Wait 2000, Attempt 60000],
                elapsed = d + 2000 + d'\<rparr>
           | (Pending, d') \<Rightarrow>
               \<lparr>outcome = Pending, events = [Attempt 30000, Wait 2000, Attempt 60000],
                elapsed = d + 2000 + d'\<rparr>
           | (Throws e2, d') \<Rightarrow>
               \<lparr>outcome = Throws (IsError (query_throw (as_Error e2))),
                events = [Attempt 30000, Wait 2000, Attempt 60000],
                elapsed = d + 2000 + d'\<rparr>))"
  unfolding ApiClient_query_def query_loop_first query_loop_last
  by (simp split: prod.splits settled.splits)

lemma query_try_error_response:
  assumes "fetch request attempt = FetchResolves d resp" "d < timeoutMs attempt" "\<not> ok resp"
    and "json resp \<noteq> JsonPending"
  shows "\<exists>e t. query_try fetch request attempt = (Throws e, t)"
  using assms by (cases "json resp") (simp_all add: query_try_def fetchWithTimeout_def)

subsection \<open>A backend error response on the first attempt\<close>

text \<open>
  C1, as amended. When the first attempt receives a response whose status is not in the
  2xx range, and the read of its body settles, \<open>query\<close> does not fail at once: it
  waits 2000 ms and makes a second attempt with a deadline of 60000 ms, and its result
  is that of the second attempt alone (what that attempt returns is returned, what it
  throws decides the error thrown).
\<close>

theorem error_response_is_retried:
  assumes "fetch request 1 = FetchResolves d resp" and "d < 30000" and "\<not> ok resp"
    and "json resp \<noteq> JsonPending"
  shows "events (ApiClient_query fetch request) = [Attempt 30000, Wait 2000, Attempt 60000]
       \<and> outcome (ApiClient_query fetch request) =
           (case fst (query_try fetch request 2) of
              Returns r \<Rightarrow> Returns r
            | Throws e \<Rightarrow> Throws (IsError (query_throw (as_Error e)))
            | Pending \<Rightarrow> Pending)"
proof -
  from assms have "d < timeoutMs 1" by (simp add: timeoutMs_def)
  with assms obtain e t where first: "query_try fetch request 1 = (Throws e, t)"
    using query_try_error_response [of fetch request 1 d resp] by blast
  show ?thesis
    unfolding ApiClient_query_eq first by (simp split: prod.splits settled.splits)
qed

lemma fails_once_500_first:
  "fails_once_500 asthma_request 1
     = FetchResolves 120 \<lparr>http_status = 500, json = JsonValue 5 (error_body (js ''Internal Server Error''))\<rparr>"
  by (simp add: fails_once_500_def http_reply_def)

lemma fails_once_500_second:
  "query_try fails_once_500 asthma_request 2 = (Returns asthma_answer, 125)"
  by (simp add: query_try_def fails_once_500_def http_reply_def fetchWithTimeout_def
      timeoutMs_def ok_def)

theorem error_response_is_retried_witness:
  "events (ApiClient_query fails_once_500 asthma_request)
     = [Attempt 30000, Wait 2000, Attempt 60000]
   \<and> outcome (ApiClient_query fails_once_500 asthma_request) = Returns asthma_answer"
proof -
  let ?resp = "\<lparr>http_status = 500,
                json = JsonValue 5 (error_body (js ''Internal Server Error''))\<rparr>"
  have "(120::nat) < 30000" and "\<not> ok ?resp" and "json ?resp \<noteq> JsonPending"
    by (simp_all add: ok_def)
  from error_response_is_retried [of fails_once_500 asthma_request 120 ?resp,
      OF fails_once_500_first this]
  show ?thesis by (simp add: fails_once_500_second)
qed

text \<open>
  C1 as stated fails: with HTTP 500 on the first attempt and an answer on the second,
  \<open>query\<close> makes two attempts with the wait between them and returns the answer.
\<close>

theorem http_500_is_retried_counterexample:
  "events (ApiClient_query fails_once_500 asthma_request) \<noteq> [Attempt 30000]
   \<and> Wait 2000 \<in> set (events (ApiClient_query fails_once_500 asthma_request))
   \<and> outcome (ApiClient_query fails_once_500 asthma_request) = Returns asthma_answer"
  unfolding ApiClient_query_eq
  by (simp add: query_try_def fails_once_500_def http_reply_def
      fetchWithTimeout_def timeoutMs_def ok_def)

subsection \<open>The attempt policy\<close>

text \<open>
  C3, as amended. \<open>query\<close> makes at most 2 attempts; attempt 1 has a deadline of
  30000 ms; attempt 2 is made exactly when the try block of attempt 1 throws, whatever
  it throws (a timeout, a transport failure, a response outside 2xx, a body that does
  not decode), has a deadline of 60000 ms and comes after a wait of 2000 ms.
\<close>

theorem attempt_policy:
  "events (ApiClient_query fetch request) =
     (if attempt_fails fetch request 1 then [Attempt 30000, Wait 2000, Attempt 60000]
      else [Attempt 30000])
   \<and> attempts (ApiClient_query fetch request) =
     (if attempt_fails fetch request 1 then [30000, 60000] else [30000])
   \<and> length (attempts (ApiClient_query fetch request)) \<le> 2"
  unfolding ApiClient_query_eq attempt_fails_def attempts_def
  by (simp split: prod.splits settled.splits)

theorem attempt_policy_witness:
  "attempt_fails always_503 asthma_request 1
   \<and> events (ApiClient_query always_503 asthma_request)
       = [Attempt 30000, Wait 2000, Attempt 60000]
   \<and> attempts (ApiClient_query always_503 asthma_request) = [30000, 60000]"
proof -
  have "attempt_fails always_503 asthma_request 1"
    by (simp add: attempt_fails_def query_try_def always_503_def http_reply_def
        fetchWithTimeout_def timeoutMs_def ok_def error_body_def or_else_def)
  then show ?thesis
    using attempt_policy [of always_503 asthma_request] by simp
qed

text \<open>
  C3 as stated fails: a second attempt is made after HTTP 503, which is none of the
  retryable conditions.
\<close>

theorem retry_after_error_response_counterexample:
  "Attempt 60000 \<in> set (events (ApiClient_query always_503 asthma_request))
   \<and> \<not> spec_retryable always_503 asthma_request 1"
  unfolding ApiClient_query_eq
  by (simp add: query_try_def always_503_def http_reply_def
      fetchWithTimeout_def timeoutMs_def ok_def error_body_def or_else_def spec_retryable_def)

subsection \<open>The error thrown after the last attempt\<close>

lemma fetch_catch_AbortError:
  "fetch_catch AbortError
     = IsError (new_Error (js ''Request timed out. Please refresh the page and try again.''))"
  by (simp add: fetch_catch_def AbortError_def)

lemma deadline_expires_timeout:
  "deadline_expires net timeout \<Longrightarrow>
   fetchWithTimeout net timeout
     = (Inl (IsError (new_Error (js ''Request timed out. Please refresh the page and try again.''))),
        timeout)"
  by (cases net) (simp_all add: deadline_expires_def fetchWithTimeout_def fetch_catch_AbortError)

lemma timed_out_is_slow:
  "query_throw (new_Error (js ''Request timed out. Please refresh the page and try again.''))
     = new_Error server_slow_message"
  by (simp add: query_throw_def new_Error_def js_includes_def js_def sublist_code)




lemma outcome_of_last_attempt:
  assumes "attempt_fails fetch request 1" and "query_try fetch request 2 = (Throws err, t)"
  shows "outcome (ApiClient_query fetch request) = Throws (IsError (query_throw (as_Error err)))"
  using assms unfolding ApiClient_query_eq attempt_fails_def
  by (auto split: prod.splits settled.splits)




subsection \<open>The time a call of query takes\<close>

lemma fetchWithTimeout_elapsed: "snd (fetchWithTimeout net timeout) \<le> timeout"
  by (cases net) (simp_all add: fetchWithTimeout_def)

lemma fetch_time_bound: "fetch_time fetch request attempt \<le> timeoutMs attempt"
  by (simp add: fetch_time_def fetchWithTimeout_elapsed)

lemma query_try_elapsed:
  "snd (query_try fetch request attempt)
     = fetch_time fetch request attempt + body_time fetch request attempt"
  by (cases "fetchWithTimeout (fetch request attempt) (timeoutMs attempt)")
     (auto simp: query_try_def fetch_time_def body_time_def body_read_def
        split: sum.splits json_read.splits)

lemma query_try_Pending:
  "fst (query_try fetch request attempt) = Pending
     \<longleftrightarrow> body_read fetch request attempt = Some JsonPending"
  by (cases "fetchWithTimeout (fetch request attempt) (timeoutMs attempt)")
     (auto simp: query_try_def body_read_def split: sum.splits json_read.splits)

lemma query_elapsed:
  "elapsed (ApiClient_query fetch request) =
     (if attempt_fails fetch request 1
      then fetch_time fetch request 1 + body_time fetch request 1 + 2000
           + fetch_time fetch request 2 + body_time fetch request 2
      else fetch_time fetch request 1 + body_time fetch request 1)"
  using query_try_elapsed [of fetch request 1] query_try_elapsed [of fetch request 2]
  unfolding ApiClient_query_eq attempt_fails_def
  by (auto split: prod.splits settled.splits)

text \<open>
  C8, as amended. Whatever the request, the time a call of \<open>query\<close> takes is the time
  of the calls of \<open>fetchWithTimeout\<close> it makes, each within its deadline, the wait of
  2000 ms when there is a second attempt, and the time of the body reads of the attempts
  it makes, which no deadline covers, since the timer is cleared before the body is
  read. So with one attempt the call ends within 30000 ms plus the time of that
  attempt's body read, with two attempts within 30000 + 2000 + 60000 = 92000 ms plus
  the time of the two body reads; and it never ends exactly when a body read that it
  makes never settles.
\<close>

theorem query_time_bound:
  "elapsed (ApiClient_query fetch request) =
     (if attempt_fails fetch request 1
      then fetch_time fetch request 1 + body_time fetch request 1 + 2000
           + fetch_time fetch request 2 + body_time fetch request 2
      else fetch_time fetch request 1 + body_time fetch request 1)
   \<and> fetch_time fetch request 1 \<le> 30000
   \<and> fetch_time fetch request 2 \<le> 60000
   \<and> elapsed (ApiClient_query fetch request) \<le>
     (if attempt_fails fetch request 1
      then 92000 + body_time fetch request 1 + body_time fetch request 2
      else 30000 + body_time fetch request 1)
   \<and> (outcome (ApiClient_query fetch request) = Pending
        \<longleftrightarrow> body_read fetch request 1 = Some JsonPending
            \<or> attempt_fails fetch request 1 \<and> body_read fetch request 2 = Some JsonPending)"
proof (intro conjI)
  show one: "fetch_time fetch request 1 \<le> 30000"
    using fetch_time_bound [of fetch request 1] by (simp add: timeoutMs_def)
  show two: "fetch_time fetch request 2 \<le> 60000"
    using fetch_time_bound [of fetch request 2] by (simp add: timeoutMs_def)
  show "elapsed (ApiClient_query fetch request) \<le>
     (if attempt_fails fetch request 1
      then 92000 + body_time fetch request 1 + body_time fetch request 2
      else 30000 + body_time fetch request 1)"
    using one two by (simp add: query_elapsed)
  show "outcome (ApiClient_query fetch request) = Pending
        \<longleftrightarrow> body_read fetch request 1 = Some JsonPending
            \<or> attempt_fails fetch request 1 \<and> body_read fetch request 2 = Some JsonPending"
    using query_try_Pending [of fetch request 1] query_try_Pending [of fetch request 2]
    unfolding ApiClient_query_eq attempt_fails_def
    by (auto split: prod.splits settled.splits)
qed (rule query_elapsed)

text \<open>
  The bound is reached: when neither call of \<open>fetch\<close> settles, \<open>query\<close> throws after
  exactly 92000 ms.
\<close>

theorem query_time_bound_witness:
  "attempt_fails (always FetchPending) asthma_request 1
   \<and> elapsed (ApiClient_query (always FetchPending) asthma_request) = 92000"
proof -
  have fails: "attempt_fails (always FetchPending) asthma_request 1"
    by (simp add: attempt_fails_def query_try_def always_def fetchWithTimeout_def)
  have times: "fetch_time (always FetchPending) asthma_request 1 = 30000"
    "fetch_time (always FetchPending) asthma_request 2 = 60000"
    "body_time (always FetchPending) asthma_request 1 = 0"
    "body_time (always FetchPending) asthma_request 2 = 0"
    by (simp_all add: fetch_time_def body_time_def body_read_def always_def fetchWithTimeout_def
        timeoutMs_def)
  from query_time_bound [of "always FetchPending" asthma_request] fails times
  show ?thesis by simp
qed

text \<open>
  C8 as stated fails: a response whose headers arrive after 50 ms and whose body takes
  100000 ms to read is returned after 100050 ms; and when the body never ends, \<open>query\<close>
  never returns.
\<close>

theorem slow_body_counterexample:
  "outcome (ApiClient_query slow_body asthma_request) = Returns asthma_answer
   \<and> elapsed (ApiClient_query slow_body asthma_request) = 100050
   \<and> \<not> elapsed (ApiClient_query slow_body asthma_request) \<le> 92000
   \<and> outcome (ApiClient_query stalled_body asthma_request) = Pending"
  unfolding ApiClient_query_eq
  by (simp add: query_try_def slow_body_def stalled_body_def always_def fetchWithTimeout_def
      timeoutMs_def ok_def)

section \<open>The conversation\<close>

subsection \<open>Submitting while a call is in flight\<close>

lemma ChatInput_event_loading: "snd (ChatInput_event True ev msg) = None"
  by (cases ev) (simp_all add: ChatInput_event_def handleKeyPress_def handleSend_def)

lemma ChatInput_event_sends:
  "ChatInput_event ld ev msg = (msg', Some t) \<Longrightarrow> \<not> ld"
  by (cases ev) (auto simp: ChatInput_event_def handleKeyPress_def handleSend_def Let_def
      split: if_splits)

lemma loading_start [simp]: "loading (fst (handleSendMessage_start st t s))"
  by (simp add: handleSendMessage_start_def)

lemma loading_finish [simp]: "\<not> loading (handleSendMessage_finish st c s)"
  by (simp add: handleSendMessage_finish_def)

lemma App_step_inv:
  assumes "in_flight a = (if loading (chat a) then 1 else 0)"
  shows "in_flight (App_step a e) = (if loading (chat (App_step a e)) then 1 else 0)"
proof (cases e)
  case (Input st ev)
  show ?thesis
  proof (cases "ChatInput_event (loading (chat a)) ev (input a)")
    case (Pair msg' sent)
    show ?thesis
    proof (cases sent)
      case None
      with Pair Input assms show ?thesis by simp
    next
      case (Some t)
      with Pair have "\<not> loading (chat a)" by (auto dest: ChatInput_event_sends)
      with Some Pair Input assms show ?thesis
        by (simp add: handleSendMessage_start_def)
    qed
  qed
next
  case (SelectExample st q)
  with assms show ?thesis
    by (simp add: examples_rendered_def handleSelectQuery_start_def handleSendMessage_start_def)
next
  case (Settled st c)
  with assms show ?thesis by (simp split: if_splits)
next
  case DismissError
  with assms show ?thesis by simp
qed

lemma App_run_inv:
  "in_flight a = (if loading (chat a) then 1 else 0) \<Longrightarrow>
   in_flight (App_run a evs) = (if loading (chat (App_run a evs)) then 1 else 0)"
  unfolding App_run_def
proof (induction evs arbitrary: a)
  case Nil
  then show ?case by simp
next
  case (Cons e evs)
  from Cons.IH [OF App_step_inv [OF Cons.prems]] show ?case by simp
qed

lemma status_Sending: "status_of s = Sending \<longleftrightarrow> loading s"
  by (simp add: status_of_def split: option.splits)

text \<open>
  C2. In a state whose status is \<open>Sending\<close>, a submission does nothing, through either
  call site of \<open>handleSendMessage\<close>: no event of \<open>ChatInput\<close> gets past \<open>handleSend\<close>,
  and no example query can be selected, so the conversation (its entries with it) stays
  as it is and no call of the gateway is issued. Over every sequence of events from the
  initial state, at most one call of the gateway is in flight, and one is in flight
  exactly while the status is \<open>Sending\<close>.
\<close>

theorem submit_while_sending_is_noop:
  "(status_of (chat a) = Sending \<longrightarrow>
      chat (App_step a (Input st ev)) = chat a
      \<and> issued (App_step a (Input st ev)) = issued a
      \<and> in_flight (App_step a (Input st ev)) = in_flight a
      \<and> App_step a (SelectExample st q) = a)
   \<and> in_flight (App_run App_initial evs) \<le> 1
   \<and> (in_flight (App_run App_initial evs) = 1)
       = (status_of (chat (App_run App_initial evs)) = Sending)"
proof (intro conjI impI)
  assume "status_of (chat a) = Sending"
  then have l: "loading (chat a)" by (simp add: status_Sending)
  obtain msg' sent where p: "ChatInput_event (loading (chat a)) ev (input a) = (msg', sent)"
    by (cases "ChatInput_event (loading (chat a)) ev (input a)")
  with l ChatInput_event_loading [of ev "input a"] have "sent = None" by simp
  with p show "chat (App_step a (Input st ev)) = chat a"
    and "issued (App_step a (Input st ev)) = issued a"
    and "in_flight (App_step a (Input st ev)) = in_flight a" by simp_all
  from l show "App_step a (SelectExample st q) = a"
    by (simp add: examples_rendered_def)
next
  have "in_flight App_initial = (if loading (chat App_initial) then 1 else 0)"
    by (simp add: App_initial_def initial_state_def)
  from App_run_inv [OF this, of evs]
  show "in_flight (App_run App_initial evs) \<le> 1"
    and "(in_flight (App_run App_initial evs) = 1)
       = (status_of (chat (App_run App_initial evs)) = Sending)"
    by (simp_all add: status_Sending split: if_splits)
qed

theorem submit_while_sending_is_noop_witness:
  "status_of (chat busy_app) = Sending
   \<and> length (messages (chat busy_app)) = 1
   \<and> chat (App_step busy_app (Input stamp2 Click)) = chat busy_app
   \<and> issued (App_step busy_app (Input stamp2 Click)) = [asthma_request]
   \<and> in_flight (App_step busy_app (Input stamp2 Click)) = 1
   \<and> App_step busy_app (SelectExample stamp2 (js ''What causes acne?'')) = busy_app"
proof -
  have sending: "status_of (chat busy_app) = Sending"
    and one: "length (messages (chat busy_app)) = 1"
    and facts: "issued busy_app = [asthma_request]" "in_flight busy_app = 1"
    by (simp_all add: busy_app_def busy_state_def handleSendMessage_start_def initial_state_def
        status_of_def)
  from submit_while_sending_is_noop
    [of busy_app stamp2 Click "js ''What causes acne?''"] sending one facts
  show ?thesis by simp
qed

subsection \<open>A failed call\<close>

lemma query_throw_nonempty: "err_message (query_throw e) \<noteq> []"
  by (simp add: query_throw_def new_Error_def server_slow_message_def cannot_connect_message_def
      js_def)

lemma ApiClient_query_throws:
  "outcome (ApiClient_query fetch request) = Throws err \<Longrightarrow>
   \<exists>e. err = IsError (query_throw e)"
  unfolding ApiClient_query_eq
  by (auto split: prod.splits settled.splits)

lemma or_else_nonempty: "d \<noteq> [] \<Longrightarrow> or_else x d \<noteq> []"
  by (simp add: or_else_def split: option.splits)

lemma failure_of_query_nonempty:
  "failure_of (outcome (ApiClient_query fetch request)) = Some m \<Longrightarrow> m \<noteq> []"
proof (cases "outcome (ApiClient_query fetch request)")
  case (Returns r)
  assume "failure_of (outcome (ApiClient_query fetch request)) = Some m"
  with Returns show ?thesis
    by (auto simp: failure_of_def or_else_nonempty js_def split: if_splits)
next
  case (Throws err)
  assume f: "failure_of (outcome (ApiClient_query fetch request)) = Some m"
  from Throws obtain e where "err = IsError (query_throw e)"
    by (auto dest: ApiClient_query_throws)
  with f Throws query_throw_nonempty [of e] show ?thesis
    by (auto simp: failure_of_def)
next
  case Pending
  assume "failure_of (outcome (ApiClient_query fetch request)) = Some m"
  with Pending show ?thesis by (simp add: failure_of_def)
qed

lemma sublist_in_append: "sublist m ys \<Longrightarrow> sublist m (xs @ ys)"
  by (auto simp: sublist_def) (metis append.assoc)

lemma friendlyMessage_includes: "js_includes (friendlyMessage m) m"
  by (simp add: js_includes_def friendlyMessage_def sublist_in_append sublist_Cons_right)

lemma finish_failure:
  assumes "failure_of oc = Some m" and "oc = Returns r \<and> c = Inr r \<or> oc = Throws err \<and> c = Inl err"
  shows "handleSendMessage_finish st c s
           = s\<lparr>error := Some m, messages := messages s @ [assistant_entry st (friendlyMessage m)],
               loading := False\<rparr>"
  using assms
  by (auto simp: failure_of_def handleSendMessage_finish_def handleSendMessage_try_def
      handleSendMessage_catch_def assistant_entry_def new_Error_def
      split: if_splits thrown.splits)

lemma handleSendMessage_eq:
  "handleSendMessage fetch st st' messageText s =
     (case outcome (ApiClient_query fetch (web_request messageText)) of
        Returns r \<Rightarrow>
          Some (handleSendMessage_finish st' (Inr r) (fst (handleSendMessage_start st messageText s)))
      | Throws err \<Rightarrow>
          Some (handleSendMessage_finish st' (Inl err) (fst (handleSendMessage_start st messageText s)))
      | Pending \<Rightarrow> None)"
  by (simp add: handleSendMessage_def handleSendMessage_start_def web_request_def
      split: settled.splits)

text \<open>
  C4. When the call of the gateway made for a submission ends in a failure (\<open>query\<close>
  throws, or returns a payload that is no success), the resulting state has the entries
  it had before, then the user's own entry, then exactly one assistant entry, whose text
  contains the error message; the status is the error with that message; nothing else
  in the log is changed.
\<close>

theorem failure_keeps_conversation:
  assumes "failure_of (outcome (ApiClient_query fetch (web_request messageText))) = Some m"
  shows "\<exists>s'. handleSendMessage fetch st st' messageText s = Some s'
           \<and> messages s' = messages s @ [user_entry st messageText,
                                         assistant_entry st' (friendlyMessage m)]
           \<and> js_includes (friendlyMessage m) m
           \<and> status_of s' = Failed m
           \<and> lastDetectedLanguage s' = lastDetectedLanguage s"
proof -
  let ?s1 = "fst (handleSendMessage_start st messageText s)"
  let ?oc = "outcome (ApiClient_query fetch (web_request messageText))"
  let ?s' = "?s1\<lparr>error := Some m,
                  messages := messages ?s1 @ [assistant_entry st' (friendlyMessage m)],
                  loading := False\<rparr>"
  have m: "m \<noteq> []"
    using assms by (rule failure_of_query_nonempty)
  have s1: "messages ?s1 = messages s @ [user_entry st messageText]"
    "lastDetectedLanguage ?s1 = lastDetectedLanguage s"
    by (simp_all add: handleSendMessage_start_def user_entry_def)
  have run: "handleSendMessage fetch st st' messageText s = Some ?s'"
  proof (cases ?oc)
    case (Returns r)
    with assms have "handleSendMessage_finish st' (Inr r) ?s1 = ?s'"
      by (intro finish_failure [where oc = ?oc]) simp_all
    with Returns show ?thesis by (simp add: handleSendMessage_eq)
  next
    case (Throws err)
    with assms have "handleSendMessage_finish st' (Inl err) ?s1 = ?s'"
      by (intro finish_failure [where oc = ?oc]) simp_all
    with Throws show ?thesis by (simp add: handleSendMessage_eq)
  next
    case Pending
    with assms show ?thesis by (simp add: failure_of_def)
  qed
  have "messages ?s' = messages s @ [user_entry st messageText,
                                     assistant_entry st' (friendlyMessage m)]"
    using s1 by simp
  moreover have "status_of ?s' = Failed m"
    using m by (simp add: status_of_def)
  moreover have "lastDetectedLanguage ?s' = lastDetectedLanguage s"
    using s1 by simp
  ultimately show ?thesis
    using run friendlyMessage_includes [of m] by blast
qed

lemma both_time_out:
  "outcome (ApiClient_query (always FetchPending) request)
     = Throws (IsError (new_Error server_slow_message))"
proof -
  have "attempt_fails (always FetchPending) request 1"
    by (simp add: attempt_fails_def query_try_def always_def fetchWithTimeout_def)
  moreover have "query_try (always FetchPending) request 2
      = (Throws (IsError (new_Error (js ''Request timed out. Please refresh the page and try again.''))), 60000)"
    by (simp add: query_try_def timeoutMs_def always_def deadline_expires_timeout
        deadline_expires_def)
  ultimately show ?thesis
    using outcome_of_last_attempt [of "always FetchPending" request] 
    by (simp add: as_Error_def timed_out_is_slow)
qed

theorem failure_keeps_conversation_witness:
  "\<exists>s'. handleSendMessage (always FetchPending) stamp1 stamp2 (js ''Tell me about asthma'')
           initial_state = Some s'
      \<and> messages s' = [user_entry stamp1 (js ''Tell me about asthma''),
                       assistant_entry stamp2 (friendlyMessage server_slow_message)]
      \<and> status_of s' = Failed server_slow_message"
proof -
  have "failure_of (outcome (ApiClient_query (always FetchPending)
          (web_request (js ''Tell me about asthma'')))) = Some server_slow_message"
    by (simp add: both_time_out failure_of_def new_Error_def)
  from failure_keeps_conversation [OF this, of stamp1 stamp2 initial_state]
  show ?thesis by (auto simp: initial_state_def)
qed

subsection \<open>The annotation of a translated answer\<close>

lemma finish_success:
  assumes "status r = js ''success''" and "truthy (response r)"
  shows "handleSendMessage_finish st (Inr r) s =
           s\<lparr>lastDetectedLanguage :=
                (if truthy (detected_language r) then detected_language r
                 else lastDetectedLanguage s),
             messages := messages s @ [assistant_entry st
                (if was_translated r = Some True \<and> truthy (detected_language r)
                    \<and> detected_language r \<noteq> Some (js ''English'')
                 then detected_annotation (render (detected_language r)) @ render (response r)
                 else render (response r))],
             loading := False\<rparr>"
  using assms
  by (simp add: handleSendMessage_finish_def handleSendMessage_try_def assistant_entry_def Let_def)

text \<open>
  C6. For a success (status \<open>success\<close> and a non-empty answer), the text of the
  appended assistant entry is fixed by the response. When \<open>was_translated\<close> is true and
  \<open>detected_language\<close> is present (for the code: a string that is not empty) and is not
  ``English'', the text is the globe U+1F30D, `` *Detected Language: '', the language,
  ``*'', an empty line and then the answer. In every other case, so when the language is
  ``English'', when \<open>was_translated\<close> is not true, or when there is no detected
  language, the text is the answer alone.
\<close>

theorem success_annotation:
  assumes "status r = js ''success''" and "response r = Some txt" and "txt \<noteq> []"
  shows "\<exists>c. messages (handleSendMessage_finish st (Inr r) s) = messages s @ [assistant_entry st c]
           \<and> c = (case detected_language r of
                    None \<Rightarrow> txt
                  | Some l \<Rightarrow>
                      if was_translated r = Some True \<and> l \<noteq> [] \<and> l \<noteq> js ''English''
                      then [0xD83C, 0xDF0D] @ js '' *Detected Language: '' @ l @ js ''*''
                           @ [0x0A, 0x0A] @ txt
                      else txt)
           \<and> (was_translated r = Some True \<and> detected_language r = Some lang \<and> lang \<noteq> []
                \<and> lang \<noteq> js ''English'' \<longrightarrow>
                c = [0xD83C, 0xDF0D] @ js '' *Detected Language: '' @ lang @ js ''*''
                    @ [0x0A, 0x0A] @ txt
                \<and> prefix ([0xD83C, 0xDF0D] @ js '' *Detected Language: '' @ lang @ js ''*''
                           @ [0x0A, 0x0A]) c)
           \<and> (detected_language r = Some (js ''English'') \<or> was_translated r \<noteq> Some True
                \<or> \<not> truthy (detected_language r) \<longrightarrow> c = txt)"
proof -
  from assms have "truthy (response r)" by (simp add: truthy_def)
  from finish_success [OF assms(1) this, of st s] assms(2) show ?thesis
    by (auto simp: render_def truthy_def detected_annotation_def split: option.splits)
qed

theorem success_annotation_witness:
  "\<exists>c. messages (handleSendMessage_finish stamp2 (Inr spanish_answer) busy_state)
          = messages busy_state @ [assistant_entry stamp2 c]
      \<and> c = [0xD83C, 0xDF0D] @ js '' *Detected Language: Spanish*'' @ [0x0A, 0x0A]
             @ js ''Diabetes symptoms include thirst.''"
proof -
  have "status spanish_answer = js ''success''"
    and "response spanish_answer = Some (js ''Diabetes symptoms include thirst.'')"
    and "js ''Diabetes symptoms include thirst.'' \<noteq> []"
    by (simp_all add: spanish_answer_def answer_def js_def)
  from success_annotation [OF this, of stamp2 busy_state "js ''Spanish''"]
  show ?thesis
    by (auto simp: spanish_answer_def answer_def js_def)
qed

subsection \<open>The last detected language\<close>

lemma step_language:
  "lastDetectedLanguage (Chat_step s a) =
     (case a of
        Finish st (Inr r) \<Rightarrow>
          if status r = js ''success'' \<and> truthy (response r) \<and> truthy (detected_language r)
          then detected_language r else lastDetectedLanguage s
      | _ \<Rightarrow> lastDetectedLanguage s)"
proof (cases a)
  case (Start st t)
  then show ?thesis by (simp add: handleSendMessage_start_def)
next
  case (Finish st c)
  then show ?thesis
    by (cases c)
       (simp_all add: handleSendMessage_finish_def handleSendMessage_try_def
          handleSendMessage_catch_def Let_def)
next
  case Dismiss
  then show ?thesis by simp
qed

lemma Chat_run_Cons: "Chat_run s (a # acts) = Chat_run (Chat_step s a) acts"
  by (simp add: Chat_run_def)

lemma run_language_source:
  "lastDetectedLanguage (Chat_run s acts) \<noteq> lastDetectedLanguage s \<Longrightarrow>
   \<exists>st r. Finish st (Inr r) \<in> set acts \<and> status r = js ''success'' \<and> truthy (response r)
      \<and> truthy (detected_language r)
      \<and> lastDetectedLanguage (Chat_run s acts) = detected_language r"
proof (induction acts arbitrary: s)
  case Nil
  then show ?case by (simp add: Chat_run_def)
next
  case (Cons a acts)
  show ?case
  proof (cases "lastDetectedLanguage (Chat_run (Chat_step s a) acts)
                  = lastDetectedLanguage (Chat_step s a)")
    case False
    from Cons.IH [OF False] show ?thesis
      by (auto simp: Chat_run_Cons)
  next
    case True
    with Cons.prems have "lastDetectedLanguage (Chat_step s a) \<noteq> lastDetectedLanguage s"
      by (simp add: Chat_run_Cons)
    then obtain st r where "a = Finish st (Inr r)" and "status r = js ''success''"
      and "truthy (response r)" and "truthy (detected_language r)"
      and "lastDetectedLanguage (Chat_step s a) = detected_language r"
      unfolding step_language
      by (auto split: action.splits sum.splits if_splits)
    with True show ?thesis
      by (auto simp: Chat_run_Cons)
  qed
qed

lemma run_language_kept:
  "truthy (lastDetectedLanguage s) \<Longrightarrow> truthy (lastDetectedLanguage (Chat_run s acts))"
proof (induction acts arbitrary: s)
  case Nil
  then show ?case by (simp add: Chat_run_def)
next
  case (Cons a acts)
  from Cons.prems have "truthy (lastDetectedLanguage (Chat_step s a))"
    unfolding step_language by (auto split: action.splits sum.splits)
  from Cons.IH [OF this] show ?case by (simp add: Chat_run_Cons)
qed

lemma run_language_not_cleared:
  "lastDetectedLanguage s \<noteq> None \<Longrightarrow> lastDetectedLanguage (Chat_run s acts) \<noteq> None"
proof (induction acts arbitrary: s)
  case Nil
  then show ?case by (simp add: Chat_run_def)
next
  case (Cons a acts)
  from Cons.prems have "lastDetectedLanguage (Chat_step s a) \<noteq> None"
    unfolding step_language
    by (auto simp: truthy_def split: action.splits sum.splits option.splits)
  from Cons.IH [OF this] show ?case by (simp add: Chat_run_Cons)
qed

text \<open>
  C7. Over every sequence of steps of the conversation (calls starting, calls
  finishing with any result, the error being dismissed), \<open>lastDetectedLanguage\<close>
  differs from its initial value only if a success carrying a detected language was
  processed, and then it is the language of such a success; a value that is set is never
  cleared, whatever comes later. Step by step: only the finish of a success with a
  detected language changes it, to that language.
\<close>

theorem language_changes_only_on_success:
  "(lastDetectedLanguage (Chat_run s acts) \<noteq> lastDetectedLanguage s \<longrightarrow>
      (\<exists>st r. Finish st (Inr r) \<in> set acts \<and> status r = js ''success'' \<and> truthy (response r)
         \<and> truthy (detected_language r)
         \<and> lastDetectedLanguage (Chat_run s acts) = detected_language r))
   \<and> (lastDetectedLanguage s \<noteq> None \<longrightarrow> lastDetectedLanguage (Chat_run s acts) \<noteq> None)
   \<and> (truthy (lastDetectedLanguage s) \<longrightarrow> truthy (lastDetectedLanguage (Chat_run s acts)))
   \<and> lastDetectedLanguage (Chat_step s a) =
       (case a of
          Finish st (Inr r) \<Rightarrow>
            if status r = js ''success'' \<and> truthy (response r) \<and> truthy (detected_language r)
            then detected_language r else lastDetectedLanguage s
        | _ \<Rightarrow> lastDetectedLanguage s)"
  using run_language_source [of s acts] run_language_not_cleared [of s acts]
    run_language_kept [of s acts] step_language [of s a]
  by blast

theorem language_changes_only_on_success_witness:
  "lastDetectedLanguage (Chat_run initial_state spanish_session) = Some (js ''Spanish'')
   \<and> (\<exists>st r. Finish st (Inr r) \<in> set spanish_session \<and> status r = js ''success''
         \<and> lastDetectedLanguage (Chat_run initial_state spanish_session) = detected_language r)"
proof -
  have run: "lastDetectedLanguage (Chat_run initial_state spanish_session) = Some (js ''Spanish'')"
    by (simp add: Chat_run_def spanish_session_def initial_state_def handleSendMessage_start_def
        handleSendMessage_finish_def handleSendMessage_try_def handleSendMessage_catch_def
        spanish_answer_def answer_def truthy_def js_def Let_def)
  then have "lastDetectedLanguage (Chat_run initial_state spanish_session)
      \<noteq> lastDetectedLanguage initial_state"
    by (simp add: initial_state_def)
  with language_changes_only_on_success [of initial_state spanish_session] run
  show ?thesis by blast
qed

subsection \<open>The loading flag\<close>

text \<open>
  C9. However the awaited call settles (a success, a failure payload, a thrown value),
  the completion of \<open>handleSendMessage\<close> leaves \<open>loading\<close> false, so the status is
  not \<open>Sending\<close>; the call fails to complete exactly when \<open>query\<close> never settles.
\<close>

theorem loading_reset_on_completion:
  "\<not> loading (handleSendMessage_finish st c s)
   \<and> status_of (handleSendMessage_finish st c s) \<noteq> Sending
   \<and> (handleSendMessage fetch st st' messageText s = Some s' \<longrightarrow>
        \<not> loading s' \<and> status_of s' \<noteq> Sending)
   \<and> ((handleSendMessage fetch st st' messageText s = None)
        = (outcome (ApiClient_query fetch (web_request messageText)) = Pending))"
proof -
  have fin: "\<And>c s. \<not> loading (handleSendMessage_finish st' c s)"
    by (simp add: handleSendMessage_finish_def)
  have idle: "\<And>s. \<not> loading s \<Longrightarrow> status_of s \<noteq> Sending"
    by (simp add: status_of_def split: option.splits)
  show ?thesis
    using fin idle
    by (auto simp: handleSendMessage_eq handleSendMessage_finish_def split: settled.splits)
qed

lemma rejected_payload_outcome:
  "\<exists>r. outcome (ApiClient_query rejected_payload request) = Returns r
       \<and> status r = js ''error''"
  unfolding ApiClient_query_eq
  by (simp add: query_try_def rejected_payload_def always_def http_reply_def fetchWithTimeout_def
      timeoutMs_def ok_def)

lemma fails_once_500_outcome:
  "outcome (ApiClient_query fails_once_500 request) = Returns asthma_answer"
  unfolding ApiClient_query_eq
  by (simp add: query_try_def fails_once_500_def http_reply_def fetchWithTimeout_def
      timeoutMs_def ok_def)

theorem loading_reset_on_completion_witness:
  "(\<exists>s'. handleSendMessage fails_once_500 stamp1 stamp2 (js ''Tell me about asthma'')
            initial_state = Some s' \<and> \<not> loading s')
   \<and> (\<exists>s'. handleSendMessage rejected_payload stamp1 stamp2 (js ''Tell me about asthma'')
            initial_state = Some s' \<and> \<not> loading s')
   \<and> (\<exists>s'. handleSendMessage (always FetchPending) stamp1 stamp2 (js ''Tell me about asthma'')
            initial_state = Some s' \<and> \<not> loading s')"
proof (intro conjI)
  let ?q = "js ''Tell me about asthma''"
  obtain s' where "handleSendMessage fails_once_500 stamp1 stamp2 ?q initial_state = Some s'"
    by (simp add: handleSendMessage_eq fails_once_500_outcome)
  with loading_reset_on_completion [where fetch = fails_once_500 and st = stamp1
      and st' = stamp2 and messageText = ?q and s = initial_state and s' = s']
  show "\<exists>s'. handleSendMessage fails_once_500 stamp1 stamp2 ?q initial_state = Some s'
          \<and> \<not> loading s'"
    by blast
  obtain r where "outcome (ApiClient_query rejected_payload (web_request ?q)) = Returns r"
    using rejected_payload_outcome by blast
  then obtain s' where "handleSendMessage rejected_payload stamp1 stamp2 ?q initial_state = Some s'"
    by (simp add: handleSendMessage_eq)
  with loading_reset_on_completion [where fetch = rejected_payload and st = stamp1
      and st' = stamp2 and messageText = ?q and s = initial_state and s' = s']
  show "\<exists>s'. handleSendMessage rejected_payload stamp1 stamp2 ?q initial_state = Some s'
          \<and> \<not> loading s'"
    by blast
  obtain s' where "handleSendMessage (always FetchPending) stamp1 stamp2 ?q initial_state = Some s'"
    by (simp add: handleSendMessage_eq both_time_out)
  with loading_reset_on_completion [where fetch = "always FetchPending" and st = stamp1
      and st' = stamp2 and messageText = ?q and s = initial_state and s' = s']
  show "\<exists>s'. handleSendMessage (always FetchPending) stamp1 stamp2 ?q initial_state = Some s'
          \<and> \<not> loading s'"
    by blast
qed

section \<open>The input\<close>







end
